theory Spec2Isabelle
  imports Complex_Main "HOL-Library.Word" "HOL-Library.Sublist"
begin

section \<open>JavaScript values used by the two modules\<close>

text \<open>
  A JavaScript string is a sequence of UTF-16 code units; \<open>charCodeAt(0)\<close> of a
  one-unit string reads that unit. Numbers are modelled as mathematical reals
  (\<open>Math.sin\<close> is \<open>sin\<close>), so rounding errors of IEEE doubles are outside the model.
  Console output is not modelled.
\<close>

type_synonym jsstring = "16 word list"

definition lit :: "string \<Rightarrow> jsstring" where
  "lit s = map of_char s"

text \<open>\<open>String.prototype.includes\<close>: does \<open>p\<close> occur in \<open>s\<close> as a contiguous run?\<close>

fun includes_str :: "jsstring \<Rightarrow> jsstring \<Rightarrow> bool" where
  "includes_str [] p = (p = [])"
| "includes_str (c # cs) p = (prefix p (c # cs) \<or> includes_str cs p)"

text \<open>\<open>Math.round\<close> rounds to the nearest integer, halves upwards.\<close>

definition Math_round :: "real \<Rightarrow> int" where
  "Math_round x = \<lfloor>x + 1 / 2\<rfloor>"

text \<open>
  An integral number inside a template literal is printed in decimal
  (JavaScript does so for every integer of magnitude below \<open>10^21\<close>).
\<close>

fun digits :: "nat \<Rightarrow> jsstring" where
  "digits n = (if n < 10 then [of_nat (48 + n)] else digits (n div 10) @ [of_nat (48 + n mod 10)])"

declare digits.simps [simp del]

definition numToString :: "int \<Rightarrow> jsstring" where
  "numToString i = (if i < 0 then lit ''-'' @ digits (nat (- i)) else digits (nat i))"

definition pct :: "real \<Rightarrow> jsstring" where
  "pct x = numToString (Math_round x)"

text \<open>\<open>a || b\<close> on numbers: \<open>a\<close> unless it is zero.\<close>

definition js_or :: "real \<Rightarrow> real \<Rightarrow> real" where
  "js_or a b = (if a \<noteq> 0 then a else b)"

datatype error = Error jsstring

section \<open>mlDetection.ts\<close>

record MLFeatures =
  artificialPatterns :: real
  naturalFeatures :: real
  textureConsistency :: real
  lighting :: real

record MLAnalysisResult =
  isDeepfake :: bool
  confidence :: real
  features :: MLFeatures

text \<open>
  A \<open>File\<close> is a \<open>Blob\<close> with a name; its \<open>size\<close> is the number of its bytes.
  The adapter accepts \<open>string | Blob\<close>.
\<close>

record File =
  name :: jsstring
  bytes :: "8 word list"

definition File_size :: "File \<Rightarrow> nat" where
  "File_size f = length (bytes f)"

datatype ImageData = StringData jsstring | BlobData "8 word list" | FileData File

text \<open>
  The image-classification pipeline answers with a list of labels and scores, best first,
  or throws.
\<close>

record Classification =
  label :: jsstring
  score :: real

type_synonym detector = "ImageData \<Rightarrow> error + Classification list"

text \<open>The module-level variable \<open>classifier\<close> (\<open>None\<close> is \<open>null\<close>).\<close>

record module_state =
  classifier :: "detector option"

text \<open>
  What the world answers during one run: the outcome of
  \<open>pipeline('image-classification', 'microsoft/resnet-50', ...)\<close> and the value of
  \<open>new Date().toISOString()\<close>.
\<close>

record environment =
  pipeline :: "error + detector"
  now_iso :: jsstring

definition initializeDetector :: "environment \<Rightarrow> module_state \<Rightarrow> detector option \<times> module_state" where
  "initializeDetector env st =
     (case classifier st of
        None \<Rightarrow>
          (case pipeline env of
             Inr d \<Rightarrow> (Some d, st\<lparr>classifier := Some d\<rparr>)
           | Inl e \<Rightarrow> (None, st))
      | Some d \<Rightarrow> (Some d, st))"

text \<open>
  \<open>imageData instanceof Blob && name && (name.includes("webcam-capture") || name.includes("webcam"))\<close>:
  a string is no \<open>Blob\<close>, a plain \<open>Blob\<close> has no name, and the empty name is falsy.
\<close>

definition isWebcam :: "ImageData \<Rightarrow> bool" where
  "isWebcam imageData =
     (case imageData of
        FileData f \<Rightarrow>
          name f \<noteq> [] \<and>
          (includes_str (name f) (lit ''webcam-capture'') \<or> includes_str (name f) (lit ''webcam''))
      | _ \<Rightarrow> False)"

text \<open>\<open>result && result[0] && result[0].score ? result[0].score * 100 : 0\<close>\<close>

definition confidenceScore :: "Classification list \<Rightarrow> real" where
  "confidenceScore result =
     (case result of
        [] \<Rightarrow> 0
      | r # _ \<Rightarrow> (if score r \<noteq> 0 then score r * 100 else 0))"

text \<open>The body of the \<open>try\<close> block of \<open>analyzeImageWithML\<close>; \<open>Inl\<close> is a throw.\<close>

definition analyzeImageWithML_try ::
  "environment \<Rightarrow> module_state \<Rightarrow> ImageData \<Rightarrow> (error + MLAnalysisResult) \<times> module_state" where
  "analyzeImageWithML_try env st imageData =
     (case initializeDetector env st of
        (None, st') \<Rightarrow> (Inl (Error (lit ''Model not initialized'')), st')
      | (Some detector, st') \<Rightarrow>
          (case detector imageData of
             Inl e \<Rightarrow> (Inl e, st')
           | Inr result \<Rightarrow>
               (let cs = confidenceScore result;
                    isDeepfake = (if isWebcam imageData then False else cs > 60);
                    features = \<lparr> artificialPatterns = (if isDeepfake then cs else 20),
                                 naturalFeatures = (if isDeepfake then 20 else cs),
                                 textureConsistency = (if isDeepfake then 30 else 85),
                                 lighting = (if isDeepfake then 25 else 90) \<rparr>
                in (Inr \<lparr> isDeepfake = isDeepfake, confidence = cs, features = features \<rparr>, st'))))"

text \<open>The value returned from the \<open>catch\<close> block.\<close>

definition fallbackML :: "ImageData \<Rightarrow> MLAnalysisResult" where
  "fallbackML imageData =
     \<lparr> isDeepfake = (if isWebcam imageData then False else True),
       confidence = (if isWebcam imageData then 95 else 65),
       features = \<lparr> artificialPatterns = (if isWebcam imageData then 15 else 75),
                    naturalFeatures = (if isWebcam imageData then 90 else 30),
                    textureConsistency = (if isWebcam imageData then 85 else 35),
                    lighting = (if isWebcam imageData then 90 else 40) \<rparr> \<rparr>"

text \<open>The promise of \<open>analyzeImageWithML\<close>: \<open>Inr\<close> fulfilled, \<open>Inl\<close> rejected.\<close>

definition analyzeImageWithML ::
  "environment \<Rightarrow> module_state \<Rightarrow> ImageData \<Rightarrow> (error + MLAnalysisResult) \<times> module_state" where
  "analyzeImageWithML env st imageData =
     (case analyzeImageWithML_try env st imageData of
        (Inr r, st') \<Rightarrow> (Inr r, st')
      | (Inl e, st') \<Rightarrow> (Inr (fallbackML imageData), st'))"

section \<open>analysisUtils.ts\<close>

record VideoMetrics =
  frameConsistency :: real
  facialAnomaly :: real
  audioVideoSync :: real
  temporalCoherence :: real
  neuralInconsistency :: real

record AudioMetrics =
  voicePrintAuthenticity :: real
  backgroundNoiseAnalysis :: real
  frequencyAnomalies :: real
  prosodyConsistency :: real
  spectrogramPatterns :: real

record ImageMetrics =
  metadataConsistency :: real
  pixelAnomalies :: real
  lightingConsistency :: real
  textureAnalysis :: real
  neuralInconsistency :: real

datatype SpecificMetrics = Video VideoMetrics | Audio AudioMetrics | Image ImageMetrics

record BaseMetrics =
  authenticity :: real
  manipulationProbability :: real
  confidence :: real

record AnalysisResult =
  overallResult :: jsstring
  isDeepfake :: bool
  baseMetrics :: BaseMetrics
  specificMetrics :: SpecificMetrics
  mediaType :: jsstring
  fileName :: jsstring
  analysisDate :: jsstring
  datasetReference :: jsstring
  confidenceInterval :: jsstring
  analysisVersion :: jsstring
  detailedExplanation :: jsstring
  downloadable :: bool

text \<open>Lines 58-67: the initial value of \<open>mlResults\<close>.\<close>

definition defaultML :: MLAnalysisResult where
  "defaultML =
     \<lparr> MLAnalysisResult.isDeepfake = False,
       MLAnalysisResult.confidence = 0,
       features = \<lparr> artificialPatterns = 0, naturalFeatures = 0,
                    textureConsistency = 0, lighting = 0 \<rparr> \<rparr>"

text \<open>
  Lines 69-78: the adapter is awaited only under the guard; a rejection is caught and
  leaves \<open>mlResults\<close> as it was.
\<close>

definition classifierStage ::
  "environment \<Rightarrow> module_state \<Rightarrow> jsstring \<Rightarrow> File option \<Rightarrow> bool \<Rightarrow> MLAnalysisResult \<times> module_state" where
  "classifierStage env st type fileData forceAuthentic =
     (case fileData of
        Some f \<Rightarrow>
          (if (type = lit ''image'' \<or> type = lit ''video'') \<and> \<not> forceAuthentic then
             (case analyzeImageWithML env st (FileData f) of
                (Inr r, st') \<Rightarrow> (r, st')
              | (Inl e, st') \<Rightarrow> (defaultML, st'))
           else (defaultML, st))
      | None \<Rightarrow> (defaultML, st))"

text \<open>Lines 80-87: the seed.\<close>

definition hash :: "jsstring \<Rightarrow> nat" where
  "hash fName = foldl (\<lambda>acc char. acc + unat char) 0 fName"

definition fileSizeFactor :: "File option \<Rightarrow> real" where
  "fileSizeFactor fileData =
     (case fileData of Some f \<Rightarrow> real (File_size f mod 1000) / 1000 | None \<Rightarrow> 0)"

definition seed :: "jsstring \<Rightarrow> File option \<Rightarrow> real" where
  "seed fName fileData = real (hash fName) / 1000 + fileSizeFactor fileData"

text \<open>Lines 89-101: the override of \<open>mlResults\<close>.\<close>

definition forcedML :: MLAnalysisResult where
  "forcedML =
     \<lparr> MLAnalysisResult.isDeepfake = False,
       MLAnalysisResult.confidence = 90,
       features = \<lparr> artificialPatterns = 12, naturalFeatures = 92,
                    textureConsistency = 95, lighting = 90 \<rparr> \<rparr>"

definition overrideML :: "bool \<Rightarrow> MLAnalysisResult \<Rightarrow> MLAnalysisResult" where
  "overrideML forceAuthentic mlResults = (if forceAuthentic then forcedML else mlResults)"

text \<open>
  The value of the variable \<open>mlResults\<close> after line 101, the one every later line reads,
  with the module state the adapter left.
\<close>

definition mlResultsUsed ::
  "environment \<Rightarrow> module_state \<Rightarrow> jsstring \<Rightarrow> File option \<Rightarrow> bool \<Rightarrow> MLAnalysisResult \<times> module_state" where
  "mlResultsUsed env st type fileData forceAuthentic =
     (case classifierStage env st type fileData forceAuthentic of
        (mlResults, st') \<Rightarrow> (overrideML forceAuthentic mlResults, st'))"

text \<open>
  Lines 105-132: \<open>authenticity\<close>, \<open>manipulationProbability\<close> and \<open>isDeepfake\<close>.
\<close>

definition verdict ::
  "jsstring \<Rightarrow> jsstring \<Rightarrow> bool \<Rightarrow> MLAnalysisResult \<Rightarrow> real \<Rightarrow> real \<times> real \<times> bool" where
  "verdict type fName forceAuthentic mlResults sd =
     (if forceAuthentic \<or> includes_str fName (lit ''webcam-capture'') then
        (let authenticity = 90 + sin (sd * 5) * 5;
             manipulationProbability = 100 - authenticity
         in (authenticity, manipulationProbability, False))
      else if type = lit ''video'' then
        (let authenticity =
               (if MLAnalysisResult.confidence mlResults > 0
                then (if MLAnalysisResult.isDeepfake mlResults
                      then 35 + sin (sd * 5) * 15 else 80 + sin (sd * 5) * 10)
                else 50 + sin (sd * 5) * 40);
             manipulationProbability = 100 - authenticity;
             isDeepfake =
               (if MLAnalysisResult.confidence mlResults > 0
                then MLAnalysisResult.isDeepfake mlResults
                else manipulationProbability > 60)
         in (authenticity, manipulationProbability, isDeepfake))
      else
        (let authenticity =
               (if MLAnalysisResult.confidence mlResults > 0
                then (if MLAnalysisResult.isDeepfake mlResults
                      then 35 + sin (sd * 5) * 15 else 75 + sin (sd * 5) * 15)
                else 50 + sin (sd * 5) * 40);
             manipulationProbability = 100 - authenticity;
             isDeepfake =
               (if MLAnalysisResult.confidence mlResults > 0
                then MLAnalysisResult.isDeepfake mlResults
                else manipulationProbability > 60)
         in (authenticity, manipulationProbability, isDeepfake)))"

text \<open>Lines 142-183: the five metrics of the media kind.\<close>

definition specificMetricsOf ::
  "jsstring \<Rightarrow> bool \<Rightarrow> MLAnalysisResult \<Rightarrow> bool \<Rightarrow> real \<Rightarrow> SpecificMetrics" where
  "specificMetricsOf type forceAuthentic mlResults deepfake sd =
     (if type = lit ''video'' then
        Video
         \<lparr> frameConsistency =
             (if forceAuthentic then 90 + sin (sd * 11) * 5
              else js_or (textureConsistency (features mlResults))
               (if deepfake then 55 + sin (sd * 11) * 15 else 85 + sin (sd * 11) * 10)),
           facialAnomaly =
             (if forceAuthentic then 15 + sin (sd * 13) * 5
              else js_or (artificialPatterns (features mlResults))
               (if deepfake then 67 + sin (sd * 13) * 20 else 25 + sin (sd * 13) * 15)),
           audioVideoSync =
             (if forceAuthentic then 92 + sin (sd * 17) * 5
              else (if deepfake then 48 + sin (sd * 17) * 20 else 88 + sin (sd * 17) * 10)),
           temporalCoherence =
             (if forceAuthentic then 88 + sin (sd * 19) * 5
              else js_or (textureConsistency (features mlResults))
               (if deepfake then 52 + sin (sd * 19) * 15 else 82 + sin (sd * 19) * 10)),
           VideoMetrics.neuralInconsistency =
             (if forceAuthentic then 18 + sin (sd * 23) * 5
              else js_or (artificialPatterns (features mlResults))
               (if deepfake then 75 + sin (sd * 23) * 15 else 30 + sin (sd * 23) * 20)) \<rparr>
      else if type = lit ''audio'' then
        Audio
         \<lparr> voicePrintAuthenticity =
             (if forceAuthentic then 90 + sin (sd * 11) * 5
              else (if deepfake then 45 + sin (sd * 11) * 15 else 85 + sin (sd * 11) * 10)),
           backgroundNoiseAnalysis =
             (if forceAuthentic then 20 + sin (sd * 13) * 5
              else (if deepfake then 60 + sin (sd * 13) * 15 else 25 + sin (sd * 13) * 10)),
           frequencyAnomalies =
             (if forceAuthentic then 15 + sin (sd * 17) * 5
              else (if deepfake then 72 + sin (sd * 17) * 15 else 30 + sin (sd * 17) * 10)),
           prosodyConsistency =
             (if forceAuthentic then 88 + sin (sd * 19) * 5
              else (if deepfake then 48 + sin (sd * 19) * 15 else 82 + sin (sd * 19) * 10)),
           spectrogramPatterns =
             (if forceAuthentic then 22 + sin (sd * 23) * 5
              else (if deepfake then 70 + sin (sd * 23) * 15 else 32 + sin (sd * 23) * 15)) \<rparr>
      else
        Image
         \<lparr> metadataConsistency =
             (if forceAuthentic then 90 + sin (sd * 11) * 5
              else js_or (naturalFeatures (features mlResults))
               (if deepfake then 55 + sin (sd * 11) * 15 else 80 + sin (sd * 11) * 15)),
           pixelAnomalies =
             (if forceAuthentic then 15 + sin (sd * 13) * 5
              else js_or (artificialPatterns (features mlResults))
               (if deepfake then 65 + sin (sd * 13) * 20 else 30 + sin (sd * 13) * 15)),
           lightingConsistency =
             (if forceAuthentic then 92 + sin (sd * 17) * 5
              else js_or (lighting (features mlResults))
               (if deepfake then 45 + sin (sd * 17) * 20 else 75 + sin (sd * 17) * 15)),
           textureAnalysis =
             (if forceAuthentic then 88 + sin (sd * 19) * 5
              else js_or (textureConsistency (features mlResults))
               (if deepfake then 40 + sin (sd * 19) * 15 else 82 + sin (sd * 19) * 10)),
           ImageMetrics.neuralInconsistency =
             (if forceAuthentic then 20 + sin (sd * 23) * 5
              else js_or (artificialPatterns (features mlResults))
               (if deepfake then 72 + sin (sd * 23) * 15 else 25 + sin (sd * 23) * 15)) \<rparr>)"

text \<open>Lines 185-213: the explanation templates.\<close>

definition videoExplanation :: "bool \<Rightarrow> VideoMetrics \<Rightarrow> jsstring" where
  "videoExplanation deepfake m =
     (if deepfake then
       lit ''This video exhibits multiple deepfake indicators from our DFDC-trained model. We detected inconsistent temporal coherence (''
       @ pct (temporalCoherence m)
       @ lit ''% anomaly), facial morphology anomalies (''
       @ pct (facialAnomaly m)
       @ lit ''% detection), and audio-visual desynchronization (''
       @ pct (audioVideoSync m)
       @ lit ''% mismatch). These patterns strongly match known GAN-based deepfake generation methods.''
      else
       lit ''This video appears authentic based on our DFD comparison analysis. We observed natural frame transitions (''
       @ pct (frameConsistency m)
       @ lit ''% consistency), expected facial landmark movement (''
       @ pct (facialAnomaly m)
       @ lit ''% normal detection), and properly synchronized audio-visual elements (''
       @ pct (audioVideoSync m)
       @ lit ''% match). No significant manipulation artifacts were detected.'')"

definition audioExplanation :: "bool \<Rightarrow> AudioMetrics \<Rightarrow> jsstring" where
  "audioExplanation deepfake m =
     (if deepfake then
       lit ''This audio shows signs of synthetic voice generation including unusual voiceprint patterns (''
       @ pct (voicePrintAuthenticity m)
       @ lit ''% anomaly), spectral irregularities (''
       @ pct (spectrogramPatterns m)
       @ lit ''% detection), and prosody inconsistencies (''
       @ pct (prosodyConsistency m)
       @ lit ''% mismatch). These characteristics match patterns in our DFDC-trained voice synthesis detection model.''
      else
       lit ''This audio displays natural voice characteristics with consistent voiceprint (''
       @ pct (voicePrintAuthenticity m)
       @ lit ''% authenticity), normal spectral distribution (''
       @ pct (spectrogramPatterns m)
       @ lit ''% within normal range), and expected prosody patterns (''
       @ pct (prosodyConsistency m)
       @ lit ''% natural). No significant synthetic voice indicators were detected.'')"

definition imageExplanation :: "bool \<Rightarrow> ImageMetrics \<Rightarrow> jsstring" where
  "imageExplanation deepfake m =
     (if deepfake then
       lit ''This image contains multiple manipulation indicators identified by our DFD-trained model. We detected neural inconsistencies (''
       @ pct (ImageMetrics.neuralInconsistency m)
       @ lit ''% anomaly), texture irregularities (''
       @ pct (textureAnalysis m)
       @ lit ''% unnatural), and lighting discrepancies (''
       @ pct (lightingConsistency m)
       @ lit ''% mismatch). These patterns are consistent with GAN-generated or manipulated imagery.''
      else
       lit ''This image appears authentic based on our dataset comparison. We observed natural texture patterns (''
       @ pct (textureAnalysis m)
       @ lit ''% natural), consistent lighting (''
       @ pct (lightingConsistency m)
       @ lit ''% consistent), and expected neural patterns (''
       @ pct (ImageMetrics.neuralInconsistency m)
       @ lit ''% normal). No significant manipulation artifacts were detected.'')"

definition webcamImageExplanation :: "ImageMetrics \<Rightarrow> jsstring" where
  "webcamImageExplanation m =
       lit ''Live webcam capture verified as authentic. Natural lighting patterns (''
     @ pct (lightingConsistency m)
     @ lit ''% consistent) and expected texture characteristics (''
     @ pct (textureAnalysis m)
     @ lit ''% natural) confirm this is an original capture from your device.''"

definition webcamVideoExplanation :: "VideoMetrics \<Rightarrow> jsstring" where
  "webcamVideoExplanation m =
       lit ''Live webcam recording verified as authentic. Natural frame transitions (''
     @ pct (frameConsistency m)
     @ lit ''% consistency) and expected facial movements (''
     @ pct (facialAnomaly m)
     @ lit ''% normal detection) confirm this is an original recording from your device.''"

text \<open>
  The source picks the template by \<open>type\<close>, with the same three-way test that chose the
  shape of \<open>specificMetrics\<close>, and casts; so each cast reads the shape that was built,
  and the model dispatches on the shape. The webcam text replaces the first one only for
  \<open>type === 'image'\<close> and \<open>type === 'video'\<close>.
\<close>

definition explanationOf ::
  "jsstring \<Rightarrow> jsstring \<Rightarrow> bool \<Rightarrow> bool \<Rightarrow> SpecificMetrics \<Rightarrow> jsstring" where
  "explanationOf type fName forceAuthentic deepfake sm =
     (let explanation =
            (case sm of
               Video m \<Rightarrow> videoExplanation deepfake m
             | Audio m \<Rightarrow> audioExplanation deepfake m
             | Image m \<Rightarrow> imageExplanation deepfake m)
      in if includes_str fName (lit ''webcam-capture'') \<or> forceAuthentic then
           (case sm of
              Image m \<Rightarrow> (if type = lit ''image'' then webcamImageExplanation m else explanation)
            | Video m \<Rightarrow> webcamVideoExplanation m
            | Audio m \<Rightarrow> explanation)
         else explanation)"

text \<open>
  \<open>generateAnalysisResults\<close>: the promise it returns (\<open>Inr\<close> fulfilled, \<open>Inl\<close>
  rejected) and the module state it leaves.
\<close>

definition generateAnalysisResults ::
  "environment \<Rightarrow> module_state \<Rightarrow> jsstring \<Rightarrow> jsstring \<Rightarrow> File option \<Rightarrow> bool
     \<Rightarrow> (error + AnalysisResult) \<times> module_state" where
  "generateAnalysisResults env st type fName fileData forceAuthentic =
     (case mlResultsUsed env st type fileData forceAuthentic of
        (mlResults, st') \<Rightarrow>
          (let sd = seed fName fileData;
               v = verdict type fName forceAuthentic mlResults sd;
               authenticity = fst v;
               manipulationProbability = fst (snd v);
               isDeepfake = snd (snd v);
               baseMetrics = \<lparr> authenticity = authenticity,
                               manipulationProbability = manipulationProbability,
                               confidence = 75 + sin (sd * 7) * 15 \<rparr>;
               specificMetrics = specificMetricsOf type forceAuthentic mlResults isDeepfake sd;
               explanation = explanationOf type fName forceAuthentic isDeepfake specificMetrics
           in (Inr \<lparr> overallResult =
                        (if isDeepfake then lit ''Potential Deepfake Detected''
                         else lit ''Verified Authentic''),
                      isDeepfake = isDeepfake,
                      baseMetrics = baseMetrics,
                      specificMetrics = specificMetrics,
                      mediaType = type,
                      fileName = fName,
                      analysisDate = now_iso env,
                      datasetReference = lit ''Based on DFDC & DFD datasets'',
                      confidenceInterval =
                        pct (BaseMetrics.confidence baseMetrics - 8) @ lit ''%-''
                        @ pct (BaseMetrics.confidence baseMetrics + 8) @ lit ''%'',
                      analysisVersion = lit ''1.2.1'',
                      detailedExplanation = explanation,
                      downloadable = True \<rparr>, st')))"

section \<open>Notions used to state the properties\<close>

text \<open>The guard of line 70: the adapter is called for this input.\<close>

definition classifierAttempted :: "jsstring \<Rightarrow> File option \<Rightarrow> bool \<Rightarrow> bool" where
  "classifierAttempted type fileData forceAuthentic =
     (fileData \<noteq> None \<and> (type = lit ''image'' \<or> type = lit ''video'') \<and> \<not> forceAuthentic)"

text \<open>A percentage.\<close>

definition in_range :: "real \<Rightarrow> bool" where
  "in_range x = (0 \<le> x \<and> x \<le> 100)"

definition ml_in_range :: "MLAnalysisResult \<Rightarrow> bool" where
  "ml_in_range ml =
     (in_range (MLAnalysisResult.confidence ml) \<and>
      in_range (artificialPatterns (features ml)) \<and>
      in_range (naturalFeatures (features ml)) \<and>
      in_range (textureConsistency (features ml)) \<and>
      in_range (lighting (features ml)))"

definition specific_in_range :: "SpecificMetrics \<Rightarrow> bool" where
  "specific_in_range sm =
     (case sm of
        Video m \<Rightarrow>
          in_range (frameConsistency m) \<and> in_range (facialAnomaly m) \<and>
          in_range (audioVideoSync m) \<and> in_range (temporalCoherence m) \<and>
          in_range (VideoMetrics.neuralInconsistency m)
      | Audio m \<Rightarrow>
          in_range (voicePrintAuthenticity m) \<and> in_range (backgroundNoiseAnalysis m) \<and>
          in_range (frequencyAnomalies m) \<and> in_range (prosodyConsistency m) \<and>
          in_range (spectrogramPatterns m)
      | Image m \<Rightarrow>
          in_range (metadataConsistency m) \<and> in_range (pixelAnomalies m) \<and>
          in_range (lightingConsistency m) \<and> in_range (textureAnalysis m) \<and>
          in_range (ImageMetrics.neuralInconsistency m))"

text \<open>
  The input carries a name that contains \<open>webcam-capture\<close> or \<open>webcam\<close>.
\<close>

definition webcamNamed :: "ImageData \<Rightarrow> bool" where
  "webcamNamed imageData =
     (case imageData of
        FileData f \<Rightarrow>
          includes_str (name f) (lit ''webcam-capture'') \<or> includes_str (name f) (lit ''webcam'')
      | _ \<Rightarrow> False)"

text \<open>
  The two ways the \<open>try\<close> block of the adapter can throw: no classifier is cached and
  \<open>pipeline\<close> throws (so that \<open>initializeDetector\<close> returns \<open>null\<close>), or the classifier
  in use throws on this input.
\<close>

definition initializationFails :: "environment \<Rightarrow> module_state \<Rightarrow> bool" where
  "initializationFails env st = (classifier st = None \<and> isl (pipeline env))"

definition inferenceThrows :: "environment \<Rightarrow> module_state \<Rightarrow> ImageData \<Rightarrow> bool" where
  "inferenceThrows env st imageData =
     (case fst (initializeDetector env st) of
        None \<Rightarrow> False
      | Some d \<Rightarrow> isl (d imageData))"

subsection \<open>Concrete runs\<close>

text \<open>A classifier whose best label scores one half, and one that throws.\<close>

definition detector_half :: detector where
  "detector_half imageData = Inr [\<lparr> label = lit ''tabby'', score = 1 / 2 \<rparr>]"

definition detector_broken :: detector where
  "detector_broken imageData = Inl (Error (lit ''inference failed''))"

definition st_empty :: module_state where
  "st_empty = \<lparr> classifier = None \<rparr>"

definition st_half :: module_state where
  "st_half = \<lparr> classifier = Some detector_half \<rparr>"

definition st_broken :: module_state where
  "st_broken = \<lparr> classifier = Some detector_broken \<rparr>"

definition env_half :: environment where
  "env_half = \<lparr> pipeline = Inr detector_half, now_iso = lit ''2025-01-01T00:00:00.000Z'' \<rparr>"

definition env_offline :: environment where
  "env_offline = \<lparr> pipeline = Inl (Error (lit ''network'')), now_iso = lit ''2025-01-02T00:00:00.000Z'' \<rparr>"

definition webcam_file :: File where
  "webcam_file = \<lparr> name = lit ''webcam-capture.jpg'', bytes = [] \<rparr>"

definition upload_file :: File where
  "upload_file = \<lparr> name = lit ''test.jpg'', bytes = [1, 2, 3] \<rparr>"

text \<open>A classifier whose best label scores nine tenths.\<close>

definition detector_high :: detector where
  "detector_high imageData = Inr [\<lparr> label = lit ''mask'', score = 9 / 10 \<rparr>]"

definition env_high :: environment where
  "env_high = \<lparr> pipeline = Inr detector_high, now_iso = lit ''2025-01-03T00:00:00.000Z'' \<rparr>"

text \<open>An image handed over as a data URL, a string that mentions the webcam.\<close>

definition webcam_data_url :: jsstring where
  "webcam_data_url = lit ''data:image/jpeg;name=webcam-capture;base64,AAAA''"

lemmas run_defs =
  mlResultsUsed_def classifierStage_def analyzeImageWithML_def analyzeImageWithML_try_def
  initializeDetector_def fallbackML_def confidenceScore_def isWebcam_def overrideML_def
  defaultML_def forcedML_def

lemmas input_defs =
  detector_half_def detector_broken_def st_empty_def st_half_def st_broken_def
  env_half_def env_offline_def webcam_file_def upload_file_def lit_def
  detector_high_def env_high_def webcam_data_url_def

section \<open>Properties\<close>

subsection \<open>Auxiliary facts\<close>

lemma includes_str_sublist: "includes_str s p = sublist p s"
  by (induction s) (auto simp: sublist_Cons_right)

lemma hash_sum_list: "hash fName = sum_list (map unat fName)"
proof -
  have "foldl (\<lambda>acc char. acc + unat char) a xs = a + sum_list (map unat xs)" for a and xs :: jsstring
    by (induction xs arbitrary: a) simp_all
  then show ?thesis by (simp add: hash_def)
qed

lemma analyzeImageWithML_fulfilled:
  "\<exists>r. fst (analyzeImageWithML env st imageData) = Inr r"
  by (cases "analyzeImageWithML_try env st imageData")
     (auto simp: analyzeImageWithML_def split: sum.splits)

lemma verdict_complement:
  "fst (snd (verdict type fName forceAuthentic mlResults sd))
     = 100 - fst (verdict type fName forceAuthentic mlResults sd)"
  by (simp add: verdict_def Let_def)

lemma generate_result:
  "fst (generateAnalysisResults env st type fName fileData forceAuthentic) =
     Inr (projr (fst (generateAnalysisResults env st type fName fileData forceAuthentic)))"
  by (simp add: generateAnalysisResults_def Let_def split: prod.splits)

lemma generate_baseMetrics:
  "baseMetrics (projr (fst (generateAnalysisResults env st type fName fileData forceAuthentic))) =
     (let mlResults = fst (mlResultsUsed env st type fileData forceAuthentic);
          sd = seed fName fileData;
          v = verdict type fName forceAuthentic mlResults sd
      in \<lparr> authenticity = fst v, manipulationProbability = fst (snd v),
           confidence = 75 + sin (sd * 7) * 15 \<rparr>)"
  by (simp add: generateAnalysisResults_def Let_def split: prod.splits)

lemma generate_isDeepfake:
  "isDeepfake (projr (fst (generateAnalysisResults env st type fName fileData forceAuthentic))) =
     snd (snd (verdict type fName forceAuthentic
       (fst (mlResultsUsed env st type fileData forceAuthentic)) (seed fName fileData)))"
  by (simp add: generateAnalysisResults_def Let_def split: prod.splits)

lemma generate_specificMetrics:
  "specificMetrics (projr (fst (generateAnalysisResults env st type fName fileData forceAuthentic))) =
     (let mlResults = fst (mlResultsUsed env st type fileData forceAuthentic);
          sd = seed fName fileData
      in specificMetricsOf type forceAuthentic mlResults
           (snd (snd (verdict type fName forceAuthentic mlResults sd))) sd)"
  by (simp add: generateAnalysisResults_def Let_def split: prod.splits)

lemma seed_explicit:
  "seed fName fileData =
     real (sum_list (map unat fName)) / 1000 +
     (case fileData of None \<Rightarrow> 0 | Some f \<Rightarrow> real (length (bytes f) mod 1000) / 1000)"
  by (simp add: seed_def fileSizeFactor_def File_size_def hash_sum_list split: option.splits)

lemma sin_affine_bounds:
  fixes a b :: real
  assumes "0 \<le> a"
  shows "b - a \<le> b + sin x * a" and "b + sin x * a \<le> b + a"
proof -
  have "- 1 \<le> sin x" "sin x \<le> 1" by simp_all
  then have "- 1 * a \<le> sin x * a" "sin x * a \<le> 1 * a"
    using assms by (intro mult_right_mono; simp)+
  then show "b - a \<le> b + sin x * a" and "b + sin x * a \<le> b + a" by simp_all
qed

lemma in_range_sin:
  fixes a b :: real
  assumes "0 \<le> a" "a \<le> b" "b + a \<le> 100"
  shows "in_range (b + sin x * a)"
  using sin_affine_bounds [OF assms(1), of b x] assms(2,3) by (simp add: in_range_def)

lemma in_range_js_or: "in_range a \<Longrightarrow> in_range b \<Longrightarrow> in_range (js_or a b)"
  by (simp add: js_or_def)

lemma in_range_complement: "in_range (100 - x) = in_range x"
  by (auto simp: in_range_def)

lemma verdict_authenticity_in_range:
  "in_range (fst (verdict type fName forceAuthentic mlResults sd))"
  by (simp add: verdict_def Let_def in_range_sin)

lemma forced_branch:
  assumes "forceAuthentic \<or> includes_str fName (lit ''webcam-capture'')"
  shows "verdict type fName forceAuthentic mlResults sd =
           (90 + sin (sd * 5) * 5, 100 - (90 + sin (sd * 5) * 5), False)"
  using assms by (simp add: verdict_def Let_def)

subsection \<open>The complement invariant\<close>

text \<open>
  C1. Whatever the media kind, the file name, the file, the flag \<open>forceAuthentic\<close>, the
  classifier and the module state, \<open>generateAnalysisResults\<close> returns a result whose
  \<open>baseMetrics.manipulationProbability\<close> is exactly \<open>100 - baseMetrics.authenticity\<close>.
\<close>

theorem manipulationProbability_complement:
  "\<exists>r. fst (generateAnalysisResults env st type fName fileData forceAuthentic) = Inr r \<and>
       manipulationProbability (baseMetrics r) = 100 - authenticity (baseMetrics r)"
proof -
  let ?r = "projr (fst (generateAnalysisResults env st type fName fileData forceAuthentic))"
  have "manipulationProbability (baseMetrics ?r) = 100 - authenticity (baseMetrics ?r)"
    by (simp add: generate_baseMetrics Let_def verdict_complement)
  with generate_result show ?thesis by blast
qed

subsection \<open>Forced-authentic and webcam-named inputs\<close>

text \<open>
  C4. When \<open>forceAuthentic\<close> is true or the file name contains \<open>webcam-capture\<close>, the
  result has \<open>isDeepfake = false\<close> and \<open>baseMetrics.authenticity = 90 + 5 sin(5 seed)\<close>,
  which lies between 85 and 95.
\<close>

theorem forced_or_webcam_is_authentic:
  assumes "forceAuthentic \<or> includes_str fName (lit ''webcam-capture'')"
  shows "\<exists>r. fst (generateAnalysisResults env st type fName fileData forceAuthentic) = Inr r \<and>
            isDeepfake r = False \<and>
            authenticity (baseMetrics r) = 90 + 5 * sin (5 * seed fName fileData) \<and>
            85 \<le> authenticity (baseMetrics r) \<and> authenticity (baseMetrics r) \<le> 95"
proof -
  let ?r = "projr (fst (generateAnalysisResults env st type fName fileData forceAuthentic))"
  let ?sd = "seed fName fileData"
  have a: "authenticity (baseMetrics ?r) = 90 + sin (?sd * 5) * 5"
    by (simp add: generate_baseMetrics Let_def forced_branch [OF assms])
  have d: "isDeepfake ?r = False"
    by (simp add: generate_isDeepfake forced_branch [OF assms])
  have b: "90 - 5 \<le> 90 + sin (?sd * 5) * 5" "90 + sin (?sd * 5) * 5 \<le> 90 + 5"
    using sin_affine_bounds [of 5 90 "?sd * 5"] by simp_all
  have "authenticity (baseMetrics ?r) = 90 + 5 * sin (5 * ?sd)"
    using a by (simp add: mult.commute)
  moreover have "85 \<le> authenticity (baseMetrics ?r)" "authenticity (baseMetrics ?r) \<le> 95"
    using a b by simp_all
  ultimately show ?thesis using d generate_result by blast
qed

theorem forced_or_webcam_is_authentic_witness:
  "includes_str (lit ''webcam-capture.jpg'') (lit ''webcam-capture'') \<and>
   isDeepfake (projr (fst (generateAnalysisResults env_half st_empty (lit ''image'')
      (lit ''webcam-capture.jpg'') (Some webcam_file) False))) = False \<and>
   85 \<le> authenticity (baseMetrics (projr (fst (generateAnalysisResults env_half st_empty (lit ''image'')
      (lit ''webcam-capture.jpg'') (Some webcam_file) False)))) \<and>
   authenticity (baseMetrics (projr (fst (generateAnalysisResults env_half st_empty (lit ''image'')
      (lit ''webcam-capture.jpg'') (Some webcam_file) False)))) \<le> 95"
proof -
  have h: "includes_str (lit ''webcam-capture.jpg'') (lit ''webcam-capture'')"
    by (simp add: lit_def)
  from forced_or_webcam_is_authentic [OF disjI2 [OF h], of env_half st_empty "lit ''image''" "Some webcam_file"]
  obtain r where "fst (generateAnalysisResults env_half st_empty (lit ''image'')
      (lit ''webcam-capture.jpg'') (Some webcam_file) False) = Inr r"
    and "isDeepfake r = False" "85 \<le> authenticity (baseMetrics r)" "authenticity (baseMetrics r) \<le> 95"
    by blast
  with h show ?thesis by simp
qed

subsection \<open>Percentages stay in range\<close>

lemma specificMetricsOf_in_range:
  assumes "ml_in_range mlResults"
  shows "specific_in_range (specificMetricsOf type forceAuthentic mlResults deepfake sd)"
proof -
  from assms have f:
    "in_range (artificialPatterns (features mlResults))"
    "in_range (naturalFeatures (features mlResults))"
    "in_range (textureConsistency (features mlResults))"
    "in_range (lighting (features mlResults))"
    by (simp_all add: ml_in_range_def)
  show ?thesis
    by (simp add: specificMetricsOf_def specific_in_range_def in_range_sin in_range_js_or f)
qed

lemma forcedML_in_range: "ml_in_range forcedML"
  by (simp add: ml_in_range_def forcedML_def in_range_def)

lemma mlResultsUsed_in_range:
  assumes "ml_in_range (fst (classifierStage env st type fileData forceAuthentic))"
  shows "ml_in_range (fst (mlResultsUsed env st type fileData forceAuthentic))"
  using assms
  by (cases "classifierStage env st type fileData forceAuthentic")
     (simp add: mlResultsUsed_def overrideML_def forcedML_in_range)

text \<open>
  C5. For every media kind, file name, file and flag, and every classifier and module
  state for which the tuple left by the classifier stage (the adapter's answer when it
  ran, the zeroed defaults otherwise) has its confidence and its four features in
  \<open>[0, 100]\<close>: authenticity, manipulationProbability, confidence and the five specific
  metrics of the result all lie in \<open>[0, 100]\<close>.
\<close>

theorem percentages_in_range:
  assumes "ml_in_range (fst (classifierStage env st type fileData forceAuthentic))"
  shows "\<exists>r. fst (generateAnalysisResults env st type fName fileData forceAuthentic) = Inr r \<and>
            in_range (authenticity (baseMetrics r)) \<and>
            in_range (manipulationProbability (baseMetrics r)) \<and>
            in_range (BaseMetrics.confidence (baseMetrics r)) \<and>
            specific_in_range (specificMetrics r)"
proof -
  let ?r = "projr (fst (generateAnalysisResults env st type fName fileData forceAuthentic))"
  have a: "in_range (authenticity (baseMetrics ?r))"
    by (simp add: generate_baseMetrics Let_def verdict_authenticity_in_range)
  have m: "in_range (manipulationProbability (baseMetrics ?r))"
    by (simp add: generate_baseMetrics Let_def verdict_complement in_range_complement
        verdict_authenticity_in_range)
  have c: "in_range (BaseMetrics.confidence (baseMetrics ?r))"
    by (simp add: generate_baseMetrics Let_def in_range_sin)
  have s: "specific_in_range (specificMetrics ?r)"
    by (simp add: generate_specificMetrics Let_def specificMetricsOf_in_range
        mlResultsUsed_in_range [OF assms])
  from a m c s generate_result show ?thesis by blast
qed

lemma classifierStage_half_upload:
  "fst (classifierStage env_half st_empty (lit ''image'') (Some upload_file) False) =
     \<lparr> MLAnalysisResult.isDeepfake = False, MLAnalysisResult.confidence = 50,
       features = \<lparr> artificialPatterns = 20, naturalFeatures = 50,
                    textureConsistency = 85, lighting = 90 \<rparr> \<rparr>"
  by (simp add: run_defs input_defs)

theorem percentages_in_range_witness:
  "ml_in_range (fst (classifierStage env_half st_empty (lit ''image'') (Some upload_file) False)) \<and>
   in_range (authenticity (baseMetrics (projr (fst (generateAnalysisResults env_half st_empty
      (lit ''image'') (lit ''test.jpg'') (Some upload_file) False))))) \<and>
   in_range (manipulationProbability (baseMetrics (projr (fst (generateAnalysisResults env_half st_empty
      (lit ''image'') (lit ''test.jpg'') (Some upload_file) False))))) \<and>
   in_range (BaseMetrics.confidence (baseMetrics (projr (fst (generateAnalysisResults env_half st_empty
      (lit ''image'') (lit ''test.jpg'') (Some upload_file) False))))) \<and>
   specific_in_range (specificMetrics (projr (fst (generateAnalysisResults env_half st_empty
      (lit ''image'') (lit ''test.jpg'') (Some upload_file) False))))"
proof -
  have h: "ml_in_range (fst (classifierStage env_half st_empty (lit ''image'') (Some upload_file) False))"
    by (simp add: classifierStage_half_upload ml_in_range_def in_range_def)
  from percentages_in_range [OF h, of "lit ''test.jpg''"] h show ?thesis
    by auto
qed

subsection \<open>The confidence interval\<close>

text \<open>
  C8. In every result, \<open>confidenceInterval\<close> is the decimal of
  \<open>round(confidence - 8)\<close>, a percent sign, a hyphen, the decimal of
  \<open>round(confidence + 8)\<close> and a percent sign, where \<open>confidence\<close> is
  \<open>baseMetrics.confidence\<close> of the same result.
\<close>

theorem confidenceInterval_format:
  "\<exists>r. fst (generateAnalysisResults env st type fName fileData forceAuthentic) = Inr r \<and>
       confidenceInterval r =
         numToString (Math_round (BaseMetrics.confidence (baseMetrics r) - 8)) @ lit ''%-'' @
         numToString (Math_round (BaseMetrics.confidence (baseMetrics r) + 8)) @ lit ''%''"
  by (simp add: generateAnalysisResults_def Let_def pct_def split: prod.splits)

subsection \<open>The run on test.jpg\<close>

text \<open>
  C9. For \<open>fileName = "test.jpg"\<close>, kind \<open>image\<close>, no file and \<open>forceAuthentic = false\<close>:
  the classifier is skipped (\<open>mlResults\<close> is the zeroed default and the module state is
  untouched, whatever the environment), the seed is the sum of the character codes of the
  name (815) divided by 1000, authenticity is \<open>50 + 40 sin(5 seed)\<close>, and \<open>isDeepfake\<close>
  holds exactly when \<open>manipulationProbability > 60\<close>.
\<close>

theorem test_jpg_without_bytes:
  "\<exists>r. generateAnalysisResults env st (lit ''image'') (lit ''test.jpg'') None False = (Inr r, st) \<and>
       mlResultsUsed env st (lit ''image'') None False = (defaultML, st) \<and>
       seed (lit ''test.jpg'') None = real (sum_list (map unat (lit ''test.jpg''))) / 1000 \<and>
       seed (lit ''test.jpg'') None = 815 / 1000 \<and>
       authenticity (baseMetrics r) = 50 + 40 * sin (5 * seed (lit ''test.jpg'') None) \<and>
       isDeepfake r = (manipulationProbability (baseMetrics r) > 60)"
proof -
  have ml: "mlResultsUsed env st (lit ''image'') None False = (defaultML, st)"
    by (simp add: mlResultsUsed_def classifierStage_def overrideML_def)
  have nw: "\<not> includes_str (lit ''test.jpg'') (lit ''webcam-capture'')"
    by (simp add: lit_def)
  have nv: "lit ''image'' \<noteq> lit ''video''"
    by (simp add: lit_def)
  have sd: "seed (lit ''test.jpg'') None = 815 / 1000"
    by (simp add: seed_def fileSizeFactor_def hash_def lit_def)
  have sm: "real (sum_list (map unat (lit ''test.jpg''))) / 1000 = 815 / 1000"
    by (simp add: lit_def)
  have v: "verdict (lit ''image'') (lit ''test.jpg'') False defaultML sd =
             (50 + sin (sd * 5) * 40, 100 - (50 + sin (sd * 5) * 40),
              100 - (50 + sin (sd * 5) * 40) > 60)" for sd
    using nw nv by (simp add: verdict_def Let_def defaultML_def) arith
  let ?r = "projr (fst (generateAnalysisResults env st (lit ''image'') (lit ''test.jpg'') None False))"
  have g: "generateAnalysisResults env st (lit ''image'') (lit ''test.jpg'') None False = (Inr ?r, st)"
    by (simp add: generateAnalysisResults_def ml Let_def)
  have a: "authenticity (baseMetrics ?r) = 50 + 40 * sin (5 * seed (lit ''test.jpg'') None)"
    by (simp add: generate_baseMetrics ml Let_def v mult.commute)
  have d: "isDeepfake ?r = (manipulationProbability (baseMetrics ?r) > 60)"
    by (simp add: generate_isDeepfake generate_baseMetrics ml Let_def v)
  from g ml sd sm a d show ?thesis by (intro exI [of _ ?r]) simp
qed

subsection \<open>The classifier adapter\<close>

lemma try_throws_iff:
  "(\<exists>e. fst (analyzeImageWithML_try env st imageData) = Inl e) \<longleftrightarrow>
     initializationFails env st \<or> inferenceThrows env st imageData"
  by (auto simp: analyzeImageWithML_try_def initializeDetector_def initializationFails_def
      inferenceThrows_def Let_def isl_def split: option.splits sum.splits)

lemma analyzeImageWithML_on_throw:
  assumes "fst (analyzeImageWithML_try env st imageData) = Inl e"
  shows "fst (analyzeImageWithML env st imageData) = Inr (fallbackML imageData)"
  using assms
  by (cases "analyzeImageWithML_try env st imageData") (simp add: analyzeImageWithML_def)

lemma analyzeImageWithML_on_success:
  assumes "fst (analyzeImageWithML_try env st imageData) = Inr r"
  shows "fst (analyzeImageWithML env st imageData) = Inr r"
  using assms
  by (cases "analyzeImageWithML_try env st imageData") (simp add: analyzeImageWithML_def)

lemma isWebcam_webcamNamed: "isWebcam imageData = webcamNamed imageData"
  by (cases imageData) (auto simp: isWebcam_def webcamNamed_def lit_def)

text \<open>
  C6. \<open>analyzeImageWithML\<close> never rejects. When initialization or inference throws, it
  fulfils with the fallback chosen by the input's name: \<open>isDeepfake = false\<close>,
  \<open>confidence = 95\<close> for a name containing \<open>webcam-capture\<close> or \<open>webcam\<close>, and
  \<open>isDeepfake = true\<close>, \<open>confidence = 65\<close> otherwise.
\<close>

theorem adapter_never_rejects:
  "\<exists>r. fst (analyzeImageWithML env st imageData) = Inr r \<and>
     (initializationFails env st \<or> inferenceThrows env st imageData \<longrightarrow>
        MLAnalysisResult.isDeepfake r = (\<not> webcamNamed imageData) \<and>
        MLAnalysisResult.confidence r = (if webcamNamed imageData then 95 else 65))"
proof (cases "initializationFails env st \<or> inferenceThrows env st imageData")
  case True
  then obtain e where "fst (analyzeImageWithML_try env st imageData) = Inl e"
    using try_throws_iff [of env st imageData] by blast
  then have "fst (analyzeImageWithML env st imageData) = Inr (fallbackML imageData)"
    by (rule analyzeImageWithML_on_throw)
  then show ?thesis
    by (simp add: fallbackML_def isWebcam_webcamNamed)
next
  case False
  with analyzeImageWithML_fulfilled [of env st imageData] show ?thesis by blast
qed

text \<open>
  Both fallbacks occur: a webcam-named file while the model cannot be loaded, and an
  upload on which the cached classifier throws.
\<close>

theorem adapter_never_rejects_witness:
  "initializationFails env_offline st_empty \<and>
   webcamNamed (FileData webcam_file) \<and>
   MLAnalysisResult.isDeepfake (projr (fst (analyzeImageWithML env_offline st_empty (FileData webcam_file)))) = False \<and>
   MLAnalysisResult.confidence (projr (fst (analyzeImageWithML env_offline st_empty (FileData webcam_file)))) = 95 \<and>
   inferenceThrows env_offline st_broken (FileData upload_file) \<and>
   \<not> webcamNamed (FileData upload_file) \<and>
   MLAnalysisResult.isDeepfake (projr (fst (analyzeImageWithML env_offline st_broken (FileData upload_file)))) = True \<and>
   MLAnalysisResult.confidence (projr (fst (analyzeImageWithML env_offline st_broken (FileData upload_file)))) = 65"
proof -
  have i: "initializationFails env_offline st_empty"
    by (simp add: initializationFails_def input_defs)
  have w: "webcamNamed (FileData webcam_file)"
    by (simp add: webcamNamed_def input_defs)
  have t: "inferenceThrows env_offline st_broken (FileData upload_file)"
    by (simp add: inferenceThrows_def initializeDetector_def input_defs)
  have u: "\<not> webcamNamed (FileData upload_file)"
    by (simp add: webcamNamed_def input_defs)
  from adapter_never_rejects [of env_offline st_empty "FileData webcam_file"] i w
  have a: "MLAnalysisResult.isDeepfake (projr (fst (analyzeImageWithML env_offline st_empty (FileData webcam_file)))) = False \<and>
   MLAnalysisResult.confidence (projr (fst (analyzeImageWithML env_offline st_empty (FileData webcam_file)))) = 95"
    by auto
  from adapter_never_rejects [of env_offline st_broken "FileData upload_file"] t u
  have b: "MLAnalysisResult.isDeepfake (projr (fst (analyzeImageWithML env_offline st_broken (FileData upload_file)))) = True \<and>
   MLAnalysisResult.confidence (projr (fst (analyzeImageWithML env_offline st_broken (FileData upload_file)))) = 65"
    by auto
  from i w t u a b show ?thesis by blast
qed

text \<open>
  C10. A string input is never taken for a webcam capture. For every string, the adapter
  fulfils; when inference succeeds, \<open>isDeepfake = (confidence > 60)\<close> with no exemption,
  and when initialization or inference throws, the result is the suspicious fallback
  \<open>isDeepfake = true\<close>, \<open>confidence = 65\<close>.
\<close>

theorem string_input_never_webcam:
  "\<not> isWebcam (StringData s) \<and>
   (\<exists>r. fst (analyzeImageWithML env st (StringData s)) = Inr r \<and>
      (\<not> (initializationFails env st \<or> inferenceThrows env st (StringData s)) \<longrightarrow>
         MLAnalysisResult.isDeepfake r = (MLAnalysisResult.confidence r > 60)) \<and>
      (initializationFails env st \<or> inferenceThrows env st (StringData s) \<longrightarrow>
         MLAnalysisResult.isDeepfake r = True \<and> MLAnalysisResult.confidence r = 65))"
proof -
  have nw: "\<not> isWebcam (StringData s)"
    by (simp add: isWebcam_def)
  show ?thesis
  proof (cases "fst (analyzeImageWithML_try env st (StringData s))")
    case (Inl e)
    then have f: "initializationFails env st \<or> inferenceThrows env st (StringData s)"
      using try_throws_iff [of env st "StringData s"] by blast
    from Inl have "fst (analyzeImageWithML env st (StringData s)) = Inr (fallbackML (StringData s))"
      by (rule analyzeImageWithML_on_throw)
    with nw f show ?thesis by (simp add: fallbackML_def)
  next
    case (Inr r)
    then have f: "\<not> (initializationFails env st \<or> inferenceThrows env st (StringData s))"
      using try_throws_iff [of env st "StringData s"] by auto
    from Inr have ok: "fst (analyzeImageWithML env st (StringData s)) = Inr r"
      by (rule analyzeImageWithML_on_success)
    from Inr nw have "MLAnalysisResult.isDeepfake r = (MLAnalysisResult.confidence r > 60)"
      by (auto simp: analyzeImageWithML_try_def Let_def split: prod.splits option.splits sum.splits)
    with nw f ok show ?thesis by simp
  qed
qed

text \<open>
  A data URL that mentions \<open>webcam-capture\<close>: scored 90 it is a deepfake, and with the
  model unavailable it gets the suspicious fallback.
\<close>

theorem string_input_never_webcam_witness:
  "sublist (lit ''webcam-capture'') webcam_data_url \<and>
   \<not> (initializationFails env_high st_empty \<or> inferenceThrows env_high st_empty (StringData webcam_data_url)) \<and>
   MLAnalysisResult.confidence (projr (fst (analyzeImageWithML env_high st_empty (StringData webcam_data_url)))) = 90 \<and>
   MLAnalysisResult.isDeepfake (projr (fst (analyzeImageWithML env_high st_empty (StringData webcam_data_url)))) = True \<and>
   initializationFails env_offline st_empty \<and>
   MLAnalysisResult.isDeepfake (projr (fst (analyzeImageWithML env_offline st_empty (StringData webcam_data_url)))) = True \<and>
   MLAnalysisResult.confidence (projr (fst (analyzeImageWithML env_offline st_empty (StringData webcam_data_url)))) = 65"
proof -
  have n: "sublist (lit ''webcam-capture'') webcam_data_url"
    unfolding includes_str_sublist [symmetric] by (simp add: webcam_data_url_def lit_def)
  have ok: "\<not> (initializationFails env_high st_empty \<or> inferenceThrows env_high st_empty (StringData webcam_data_url))"
    by (simp add: initializationFails_def inferenceThrows_def initializeDetector_def
        env_high_def detector_high_def st_empty_def)
  have c: "MLAnalysisResult.confidence (projr (fst (analyzeImageWithML env_high st_empty (StringData webcam_data_url)))) = 90"
    by (simp add: run_defs env_high_def detector_high_def st_empty_def)
  have i: "initializationFails env_offline st_empty"
    by (simp add: initializationFails_def input_defs)
  from string_input_never_webcam [of webcam_data_url env_high st_empty] ok c
  have a: "MLAnalysisResult.isDeepfake (projr (fst (analyzeImageWithML env_high st_empty (StringData webcam_data_url)))) = True"
    by auto
  from string_input_never_webcam [of webcam_data_url env_offline st_empty] i
  have b: "MLAnalysisResult.isDeepfake (projr (fst (analyzeImageWithML env_offline st_empty (StringData webcam_data_url)))) = True \<and>
   MLAnalysisResult.confidence (projr (fst (analyzeImageWithML env_offline st_empty (StringData webcam_data_url)))) = 65"
    by auto
  from n ok c i a b show ?thesis by blast
qed

subsection \<open>The classifier stage of the generator\<close>

lemma classifierStage_not_attempted:
  assumes "\<not> classifierAttempted type fileData forceAuthentic"
  shows "classifierStage env st type fileData forceAuthentic = (defaultML, st)"
  using assms by (auto simp: classifierStage_def classifierAttempted_def split: option.splits)

lemma classifierStage_attempted:
  assumes "classifierAttempted type (Some f) forceAuthentic"
  shows "classifierStage env st type (Some f) forceAuthentic =
           (projr (fst (analyzeImageWithML env st (FileData f))),
            snd (analyzeImageWithML env st (FileData f)))"
proof -
  obtain r where "fst (analyzeImageWithML env st (FileData f)) = Inr r"
    using analyzeImageWithML_fulfilled by blast
  with assms show ?thesis
    by (cases "analyzeImageWithML env st (FileData f)")
       (auto simp: classifierStage_def classifierAttempted_def)
qed

lemma fallbackML_not_default: "fallbackML imageData \<noteq> defaultML"
proof
  assume "fallbackML imageData = defaultML"
  then have "MLAnalysisResult.confidence (fallbackML imageData) = MLAnalysisResult.confidence defaultML"
    by simp
  then show False by (simp add: fallbackML_def defaultML_def split: if_splits)
qed

text \<open>
  C7, as the code has it. \<open>generateAnalysisResults\<close> always fulfils with a result. The
  classifier is consulted only when a file is supplied, the kind is \<open>image\<close> or \<open>video\<close>
  and \<open>forceAuthentic\<close> is false: otherwise \<open>mlResults\<close> stays the zeroed default and the
  module state is untouched. When it is consulted, \<open>mlResults\<close> is the adapter's answer;
  if initialization or inference throws, that answer is the adapter's fallback tuple,
  which is not the zeroed default.
\<close>

theorem generate_always_returns:
  "(\<exists>r. fst (generateAnalysisResults env st type fName fileData forceAuthentic) = Inr r) \<and>
   (\<not> classifierAttempted type fileData forceAuthentic \<longrightarrow>
      classifierStage env st type fileData forceAuthentic = (defaultML, st)) \<and>
   (\<forall>f. fileData = Some f \<and> classifierAttempted type fileData forceAuthentic \<longrightarrow>
      classifierStage env st type fileData forceAuthentic =
        (projr (fst (analyzeImageWithML env st (FileData f))),
         snd (analyzeImageWithML env st (FileData f))) \<and>
      (initializationFails env st \<or> inferenceThrows env st (FileData f) \<longrightarrow>
         fst (classifierStage env st type fileData forceAuthentic) = fallbackML (FileData f) \<and>
         fst (classifierStage env st type fileData forceAuthentic) \<noteq> defaultML))"
proof (intro conjI allI impI)
  show "\<exists>r. fst (generateAnalysisResults env st type fName fileData forceAuthentic) = Inr r"
    using generate_result by blast
next
  assume "\<not> classifierAttempted type fileData forceAuthentic"
  then show "classifierStage env st type fileData forceAuthentic = (defaultML, st)"
    by (rule classifierStage_not_attempted)
next
  fix f
  assume a: "fileData = Some f \<and> classifierAttempted type fileData forceAuthentic"
  then show s: "classifierStage env st type fileData forceAuthentic =
        (projr (fst (analyzeImageWithML env st (FileData f))),
         snd (analyzeImageWithML env st (FileData f)))"
    using classifierStage_attempted [of type f forceAuthentic env st] by auto
  assume "initializationFails env st \<or> inferenceThrows env st (FileData f)"
  then obtain e where "fst (analyzeImageWithML_try env st (FileData f)) = Inl e"
    using try_throws_iff [of env st "FileData f"] by blast
  then have "fst (analyzeImageWithML env st (FileData f)) = Inr (fallbackML (FileData f))"
    by (rule analyzeImageWithML_on_throw)
  with s show t: "fst (classifierStage env st type fileData forceAuthentic) = fallbackML (FileData f)"
    by simp
  show "fst (classifierStage env st type fileData forceAuthentic) \<noteq> defaultML"
    unfolding t by (rule fallbackML_not_default)
qed

lemma offline_upload_stage:
  "fst (classifierStage env_offline st_empty (lit ''image'') (Some upload_file) False) =
     \<lparr> MLAnalysisResult.isDeepfake = True, MLAnalysisResult.confidence = 65,
       features = \<lparr> artificialPatterns = 75, naturalFeatures = 30,
                    textureConsistency = 35, lighting = 40 \<rparr> \<rparr>"
  by (simp add: run_defs input_defs)

theorem generate_always_returns_witness:
  "\<not> classifierAttempted (lit ''audio'') (Some upload_file) False \<and>
   classifierStage env_half st_empty (lit ''audio'') (Some upload_file) False = (defaultML, st_empty) \<and>
   classifierAttempted (lit ''image'') (Some upload_file) False \<and>
   initializationFails env_offline st_empty \<and>
   fst (classifierStage env_offline st_empty (lit ''image'') (Some upload_file) False)
     = fallbackML (FileData upload_file) \<and>
   fst (classifierStage env_offline st_empty (lit ''image'') (Some upload_file) False) \<noteq> defaultML"
proof -
  have n: "\<not> classifierAttempted (lit ''audio'') (Some upload_file) False"
    by (simp add: classifierAttempted_def lit_def)
  have a: "classifierAttempted (lit ''image'') (Some upload_file) False"
    by (simp add: classifierAttempted_def)
  have i: "initializationFails env_offline st_empty"
    by (simp add: initializationFails_def input_defs)
  from generate_always_returns [of env_half st_empty "lit ''audio''" "lit ''test.jpg''" "Some upload_file" False] n
  have 1: "classifierStage env_half st_empty (lit ''audio'') (Some upload_file) False = (defaultML, st_empty)"
    by blast
  from generate_always_returns [of env_offline st_empty "lit ''image''" "lit ''test.jpg''" "Some upload_file" False] a i
  have 2: "fst (classifierStage env_offline st_empty (lit ''image'') (Some upload_file) False)
     = fallbackML (FileData upload_file) \<and>
   fst (classifierStage env_offline st_empty (lit ''image'') (Some upload_file) False) \<noteq> defaultML"
    by blast
  from n a i 1 2 show ?thesis by blast
qed

text \<open>
  The zeroed defaults do not survive a failed attempt. An image upload while the model
  cannot be loaded: the classifier is attempted and fails, yet \<open>mlResults\<close> is not the zeroed default: it has confidence 65
  and \<open>isDeepfake = true\<close>, and its features are the specific metrics of the result.
\<close>

theorem failed_classifier_not_zeroed:
  "classifierAttempted (lit ''image'') (Some upload_file) False \<and>
   initializationFails env_offline st_empty \<and>
   fst (classifierStage env_offline st_empty (lit ''image'') (Some upload_file) False) \<noteq> defaultML \<and>
   MLAnalysisResult.confidence
     (fst (classifierStage env_offline st_empty (lit ''image'') (Some upload_file) False)) = 65 \<and>
   MLAnalysisResult.isDeepfake
     (fst (classifierStage env_offline st_empty (lit ''image'') (Some upload_file) False)) = True \<and>
   isDeepfake (projr (fst (generateAnalysisResults env_offline st_empty (lit ''image'')
     (lit ''test.jpg'') (Some upload_file) False))) = True \<and>
   specificMetrics (projr (fst (generateAnalysisResults env_offline st_empty (lit ''image'')
     (lit ''test.jpg'') (Some upload_file) False))) =
     Image \<lparr> metadataConsistency = 30, pixelAnomalies = 75, lightingConsistency = 40,
             textureAnalysis = 35, ImageMetrics.neuralInconsistency = 75 \<rparr>"
proof -
  have m: "fst (mlResultsUsed env_offline st_empty (lit ''image'') (Some upload_file) False) =
     \<lparr> MLAnalysisResult.isDeepfake = True, MLAnalysisResult.confidence = 65,
       features = \<lparr> artificialPatterns = 75, naturalFeatures = 30,
                    textureConsistency = 35, lighting = 40 \<rparr> \<rparr>"
    using offline_upload_stage
    by (cases "classifierStage env_offline st_empty (lit ''image'') (Some upload_file) False")
       (simp add: mlResultsUsed_def overrideML_def)
  have nw: "\<not> includes_str (lit ''test.jpg'') (lit ''webcam-capture'')"
    by (simp add: lit_def)
  have nv: "lit ''image'' \<noteq> lit ''video''" "lit ''image'' \<noteq> lit ''audio''"
    by (simp_all add: lit_def)
  have d: "snd (snd (verdict (lit ''image'') (lit ''test.jpg'') False
      (fst (mlResultsUsed env_offline st_empty (lit ''image'') (Some upload_file) False)) sd))" for sd
    using nw nv by (simp add: m verdict_def Let_def)
  have a: "classifierAttempted (lit ''image'') (Some upload_file) False"
    by (simp add: classifierAttempted_def)
  have i: "initializationFails env_offline st_empty"
    by (simp add: initializationFails_def input_defs)
  have r: "isDeepfake (projr (fst (generateAnalysisResults env_offline st_empty (lit ''image'')
     (lit ''test.jpg'') (Some upload_file) False))) = True"
    by (simp add: generate_isDeepfake d)
  have s: "specificMetrics (projr (fst (generateAnalysisResults env_offline st_empty (lit ''image'')
     (lit ''test.jpg'') (Some upload_file) False))) =
     Image \<lparr> metadataConsistency = 30, pixelAnomalies = 75, lightingConsistency = 40,
             textureAnalysis = 35, ImageMetrics.neuralInconsistency = 75 \<rparr>"
    using nv by (simp add: generate_specificMetrics Let_def m specificMetricsOf_def js_or_def)
  from a i r s show ?thesis
    by (simp add: offline_upload_stage defaultML_def)
qed

subsection \<open>The override of the classifier result\<close>

lemma half_webcam_stage:
  "fst (classifierStage env_half st_empty (lit ''image'') (Some webcam_file) False) =
     \<lparr> MLAnalysisResult.isDeepfake = False, MLAnalysisResult.confidence = 50,
       features = \<lparr> artificialPatterns = 20, naturalFeatures = 50,
                    textureConsistency = 85, lighting = 90 \<rparr> \<rparr>"
  by (simp add: run_defs input_defs)

text \<open>
  C3, as the code has it. With \<open>forceAuthentic\<close> true, \<open>mlResults\<close> after line 101 is the
  fixed tuple \<open>isDeepfake = false\<close>, \<open>confidence = 90\<close>, features 12, 92, 95, 90, whatever
  the classifier would answer: it is not consulted and the module state is unchanged.
  With \<open>forceAuthentic\<close> false, \<open>mlResults\<close> is what the classifier stage of lines 69-78
  left. In both cases, and for every file name, this tuple is the one the later lines
  read: the verdict of lines 105-132 and the specific metrics of lines 142-183 of the
  returned result are computed from it.
\<close>

theorem mlResults_override:
  "(forceAuthentic \<longrightarrow>
      mlResultsUsed env st type fileData forceAuthentic =
        (\<lparr> MLAnalysisResult.isDeepfake = False, MLAnalysisResult.confidence = 90,
           features = \<lparr> artificialPatterns = 12, naturalFeatures = 92,
                        textureConsistency = 95, lighting = 90 \<rparr> \<rparr>, st)) \<and>
   (\<not> forceAuthentic \<longrightarrow>
      mlResultsUsed env st type fileData forceAuthentic =
        classifierStage env st type fileData forceAuthentic) \<and>
   (\<exists>r. generateAnalysisResults env st type fName fileData forceAuthentic =
          (Inr r, snd (mlResultsUsed env st type fileData forceAuthentic)) \<and>
        (authenticity (baseMetrics r), manipulationProbability (baseMetrics r), isDeepfake r) =
          verdict type fName forceAuthentic
            (fst (mlResultsUsed env st type fileData forceAuthentic)) (seed fName fileData) \<and>
        specificMetrics r =
          specificMetricsOf type forceAuthentic
            (fst (mlResultsUsed env st type fileData forceAuthentic)) (isDeepfake r)
            (seed fName fileData))"
proof (intro conjI impI)
  assume "forceAuthentic"
  then show "mlResultsUsed env st type fileData forceAuthentic =
        (\<lparr> MLAnalysisResult.isDeepfake = False, MLAnalysisResult.confidence = 90,
           features = \<lparr> artificialPatterns = 12, naturalFeatures = 92,
                        textureConsistency = 95, lighting = 90 \<rparr> \<rparr>, st)"
    by (simp add: mlResultsUsed_def overrideML_def classifierStage_def forcedML_def
        split: option.splits)
next
  assume "\<not> forceAuthentic"
  then show "mlResultsUsed env st type fileData forceAuthentic =
        classifierStage env st type fileData forceAuthentic"
    by (cases "classifierStage env st type fileData forceAuthentic")
       (simp add: mlResultsUsed_def overrideML_def)
next
  let ?g = "generateAnalysisResults env st type fName fileData forceAuthentic"
  let ?r = "projr (fst ?g)"
  let ?ml = "fst (mlResultsUsed env st type fileData forceAuthentic)"
  have s: "snd ?g = snd (mlResultsUsed env st type fileData forceAuthentic)"
    by (simp add: generateAnalysisResults_def Let_def split: prod.splits)
  have g: "?g = (Inr ?r, snd (mlResultsUsed env st type fileData forceAuthentic))"
    using generate_result [of env st type fName fileData forceAuthentic] s
    by (cases ?g) simp
  have v: "(authenticity (baseMetrics ?r), manipulationProbability (baseMetrics ?r), isDeepfake ?r) =
          verdict type fName forceAuthentic ?ml (seed fName fileData)"
    by (simp add: generate_baseMetrics generate_isDeepfake Let_def)
  have m: "specificMetrics ?r =
          specificMetricsOf type forceAuthentic ?ml (isDeepfake ?r) (seed fName fileData)"
    by (simp add: generate_specificMetrics generate_isDeepfake Let_def)
  from g v m show "\<exists>r. ?g = (Inr r, snd (mlResultsUsed env st type fileData forceAuthentic)) \<and>
        (authenticity (baseMetrics r), manipulationProbability (baseMetrics r), isDeepfake r) =
          verdict type fName forceAuthentic ?ml (seed fName fileData) \<and>
        specificMetrics r =
          specificMetricsOf type forceAuthentic ?ml (isDeepfake r) (seed fName fileData)"
    by blast
qed

theorem mlResults_override_witness:
  "mlResultsUsed env_half st_empty (lit ''image'') (Some webcam_file) True =
     (\<lparr> MLAnalysisResult.isDeepfake = False, MLAnalysisResult.confidence = 90,
        features = \<lparr> artificialPatterns = 12, naturalFeatures = 92,
                     textureConsistency = 95, lighting = 90 \<rparr> \<rparr>, st_empty) \<and>
   includes_str (name webcam_file) (lit ''webcam-capture'') \<and>
   fst (mlResultsUsed env_half st_empty (lit ''image'') (Some webcam_file) False) =
     \<lparr> MLAnalysisResult.isDeepfake = False, MLAnalysisResult.confidence = 50,
       features = \<lparr> artificialPatterns = 20, naturalFeatures = 50,
                    textureConsistency = 85, lighting = 90 \<rparr> \<rparr>"
proof -
  have w: "includes_str (name webcam_file) (lit ''webcam-capture'')"
    by (simp add: webcam_file_def lit_def)
  from mlResults_override [of True env_half st_empty "lit ''image''" "Some webcam_file"]
  have t: "mlResultsUsed env_half st_empty (lit ''image'') (Some webcam_file) True =
     (\<lparr> MLAnalysisResult.isDeepfake = False, MLAnalysisResult.confidence = 90,
        features = \<lparr> artificialPatterns = 12, naturalFeatures = 92,
                     textureConsistency = 95, lighting = 90 \<rparr> \<rparr>, st_empty)"
    by simp
  from mlResults_override [of False env_half st_empty "lit ''image''" "Some webcam_file"]
  have "mlResultsUsed env_half st_empty (lit ''image'') (Some webcam_file) False =
        classifierStage env_half st_empty (lit ''image'') (Some webcam_file) False"
    by simp
  with half_webcam_stage
  have f: "fst (mlResultsUsed env_half st_empty (lit ''image'') (Some webcam_file) False) =
     \<lparr> MLAnalysisResult.isDeepfake = False, MLAnalysisResult.confidence = 50,
       features = \<lparr> artificialPatterns = 20, naturalFeatures = 50,
                    textureConsistency = 85, lighting = 90 \<rparr> \<rparr>"
    by simp
  from t w f show ?thesis by blast
qed

text \<open>
  A file named \<open>webcam-capture.jpg\<close> analysed with \<open>forceAuthentic\<close> false: \<open>mlResults\<close>
  is not the fixed tuple but the classifier's answer (score one half), and its features
  are the specific metrics of the result.
\<close>

theorem webcam_name_keeps_classifier_result:
  "includes_str (lit ''webcam-capture.jpg'') (lit ''webcam-capture'') \<and>
   fst (mlResultsUsed env_half st_empty (lit ''image'') (Some webcam_file) False) \<noteq>
     \<lparr> MLAnalysisResult.isDeepfake = False, MLAnalysisResult.confidence = 90,
       features = \<lparr> artificialPatterns = 12, naturalFeatures = 92,
                    textureConsistency = 95, lighting = 90 \<rparr> \<rparr> \<and>
   fst (mlResultsUsed env_half st_empty (lit ''image'') (Some webcam_file) False) =
     \<lparr> MLAnalysisResult.isDeepfake = False, MLAnalysisResult.confidence = 50,
       features = \<lparr> artificialPatterns = 20, naturalFeatures = 50,
                    textureConsistency = 85, lighting = 90 \<rparr> \<rparr> \<and>
   specificMetrics (projr (fst (generateAnalysisResults env_half st_empty (lit ''image'')
     (lit ''webcam-capture.jpg'') (Some webcam_file) False))) =
     Image \<lparr> metadataConsistency = 50, pixelAnomalies = 20, lightingConsistency = 90,
             textureAnalysis = 85, ImageMetrics.neuralInconsistency = 20 \<rparr>"
proof -
  have m: "fst (mlResultsUsed env_half st_empty (lit ''image'') (Some webcam_file) False) =
     \<lparr> MLAnalysisResult.isDeepfake = False, MLAnalysisResult.confidence = 50,
       features = \<lparr> artificialPatterns = 20, naturalFeatures = 50,
                    textureConsistency = 85, lighting = 90 \<rparr> \<rparr>"
    using half_webcam_stage
    by (cases "classifierStage env_half st_empty (lit ''image'') (Some webcam_file) False")
       (simp add: mlResultsUsed_def overrideML_def)
  have w: "includes_str (lit ''webcam-capture.jpg'') (lit ''webcam-capture'')"
    by (simp add: lit_def)
  have nv: "lit ''image'' \<noteq> lit ''video''" "lit ''image'' \<noteq> lit ''audio''"
    by (simp_all add: lit_def)
  have s: "specificMetrics (projr (fst (generateAnalysisResults env_half st_empty (lit ''image'')
     (lit ''webcam-capture.jpg'') (Some webcam_file) False))) =
     Image \<lparr> metadataConsistency = 50, pixelAnomalies = 20, lightingConsistency = 90,
             textureAnalysis = 85, ImageMetrics.neuralInconsistency = 20 \<rparr>"
    using nv by (simp add: m generate_specificMetrics Let_def specificMetricsOf_def js_or_def)
  from w s show ?thesis by (simp add: m)
qed

subsection \<open>Determinism of the metrics\<close>

text \<open>
  C2. Two calls with the same kind, file name, file and flag, made in any two
  environments and module states (so at different times, with the model cached or not)
  in which the adapter, where it is consulted, gives the same answer, return results with
  equal \<open>baseMetrics\<close> and equal \<open>specificMetrics\<close>. The seed is a function of the sum of
  the character codes of the name and of the number of bytes only.
\<close>

theorem metrics_deterministic:
  assumes "\<forall>f. fileData = Some f \<and> classifierAttempted type fileData forceAuthentic \<longrightarrow>
             fst (analyzeImageWithML env1 st1 (FileData f)) = fst (analyzeImageWithML env2 st2 (FileData f))"
  shows "\<exists>r1 r2.
           fst (generateAnalysisResults env1 st1 type fName fileData forceAuthentic) = Inr r1 \<and>
           fst (generateAnalysisResults env2 st2 type fName fileData forceAuthentic) = Inr r2 \<and>
           baseMetrics r1 = baseMetrics r2 \<and>
           specificMetrics r1 = specificMetrics r2 \<and>
           seed fName fileData =
             real (sum_list (map unat fName)) / 1000 +
             (case fileData of None \<Rightarrow> 0 | Some f \<Rightarrow> real (length (bytes f) mod 1000) / 1000)"
proof -
  have c: "fst (classifierStage env1 st1 type fileData forceAuthentic) =
           fst (classifierStage env2 st2 type fileData forceAuthentic)"
  proof (cases "classifierAttempted type fileData forceAuthentic")
    case False
    then show ?thesis by (simp add: classifierStage_not_attempted)
  next
    case True
    then obtain f where f: "fileData = Some f"
      by (auto simp: classifierAttempted_def)
    with True assms show ?thesis
      by (simp add: classifierStage_attempted)
  qed
  have m: "fst (mlResultsUsed env1 st1 type fileData forceAuthentic) =
           fst (mlResultsUsed env2 st2 type fileData forceAuthentic)"
    using c
    by (cases "classifierStage env1 st1 type fileData forceAuthentic";
        cases "classifierStage env2 st2 type fileData forceAuthentic")
       (simp add: mlResultsUsed_def)
  let ?r1 = "projr (fst (generateAnalysisResults env1 st1 type fName fileData forceAuthentic))"
  let ?r2 = "projr (fst (generateAnalysisResults env2 st2 type fName fileData forceAuthentic))"
  have "baseMetrics ?r1 = baseMetrics ?r2"
    by (simp add: generate_baseMetrics m)
  moreover have "specificMetrics ?r1 = specificMetrics ?r2"
    by (simp add: generate_specificMetrics m)
  ultimately show ?thesis
    using generate_result seed_explicit by blast
qed

text \<open>
  A first run that loads the model, and a later run, offline, with the model cached:
  the dates differ, the metrics do not.
\<close>

theorem metrics_deterministic_witness:
  "classifierAttempted (lit ''image'') (Some upload_file) False \<and>
   fst (analyzeImageWithML env_half st_empty (FileData upload_file)) =
     fst (analyzeImageWithML env_offline st_half (FileData upload_file)) \<and>
   analysisDate (projr (fst (generateAnalysisResults env_half st_empty (lit ''image'')
       (lit ''test.jpg'') (Some upload_file) False))) \<noteq>
   analysisDate (projr (fst (generateAnalysisResults env_offline st_half (lit ''image'')
       (lit ''test.jpg'') (Some upload_file) False))) \<and>
   baseMetrics (projr (fst (generateAnalysisResults env_half st_empty (lit ''image'')
       (lit ''test.jpg'') (Some upload_file) False))) =
   baseMetrics (projr (fst (generateAnalysisResults env_offline st_half (lit ''image'')
       (lit ''test.jpg'') (Some upload_file) False))) \<and>
   specificMetrics (projr (fst (generateAnalysisResults env_half st_empty (lit ''image'')
       (lit ''test.jpg'') (Some upload_file) False))) =
   specificMetrics (projr (fst (generateAnalysisResults env_offline st_half (lit ''image'')
       (lit ''test.jpg'') (Some upload_file) False)))"
proof -
  have a: "classifierAttempted (lit ''image'') (Some upload_file) False"
    by (simp add: classifierAttempted_def)
  have h: "fst (analyzeImageWithML env_half st_empty (FileData upload_file)) =
     fst (analyzeImageWithML env_offline st_half (FileData upload_file))"
    by (simp add: run_defs input_defs)
  have d: "analysisDate (projr (fst (generateAnalysisResults env_half st_empty (lit ''image'')
       (lit ''test.jpg'') (Some upload_file) False))) \<noteq>
   analysisDate (projr (fst (generateAnalysisResults env_offline st_half (lit ''image'')
       (lit ''test.jpg'') (Some upload_file) False)))"
    by (simp add: generateAnalysisResults_def Let_def split: prod.splits)
       (simp add: input_defs)
  from metrics_deterministic [of "Some upload_file" "lit ''image''" False env_half st_empty
      env_offline st_half "lit ''test.jpg''"] h
  have "baseMetrics (projr (fst (generateAnalysisResults env_half st_empty (lit ''image'')
       (lit ''test.jpg'') (Some upload_file) False))) =
   baseMetrics (projr (fst (generateAnalysisResults env_offline st_half (lit ''image'')
       (lit ''test.jpg'') (Some upload_file) False))) \<and>
   specificMetrics (projr (fst (generateAnalysisResults env_half st_empty (lit ''image'')
       (lit ''test.jpg'') (Some upload_file) False))) =
   specificMetrics (projr (fst (generateAnalysisResults env_offline st_half (lit ''image'')
       (lit ''test.jpg'') (Some upload_file) False)))"
    by auto
  with a h d show ?thesis by blast
qed

end
